theory Spec2Isabelle
  imports Complex_Main
begin

section \<open>Text helpers\<close>

text \<open>
  Python strings are modelled as HOL strings (lists of 8-bit characters, the UTF-8
  encoding of the text).  The helpers below are the pieces of Python's string
  machinery that the program uses: decimal rendering of integers in f-strings,
  \<open>str.lower\<close>, the substring test \<open>p in s\<close> and \<open>', '.join\<close>.
\<close>

definition digit_char :: "nat \<Rightarrow> char" where
  "digit_char d = char_of (48 + d)"

definition is_digit :: "char \<Rightarrow> bool" where
  "is_digit c = (48 \<le> (of_char c :: nat) \<and> (of_char c :: nat) \<le> 57)"

definition digit_val :: "char \<Rightarrow> nat" where
  "digit_val c = of_char c - 48"

text \<open>\<open>str(n)\<close> for a non-negative integer: its decimal digits, no leading zero.\<close>

function str_nat :: "nat \<Rightarrow> string" where
  "str_nat n = (if n < 10 then [digit_char n] else str_nat (n div 10) @ [digit_char (n mod 10)])"
  by pat_completeness auto
termination
  by (relation "measure id") auto

declare str_nat.simps [simp del]

text \<open>\<open>str(i)\<close> for any Python integer.\<close>

definition str_int :: "int \<Rightarrow> string" where
  "str_int i = (if i < 0 then CHR ''-'' # str_nat (nat (- i)) else str_nat (nat i))"

text \<open>
  \<open>str.lower\<close>.  On the UTF-8 bytes only the ASCII capitals change; every phrase the
  program searches for is ASCII, and no non-ASCII letter lower-cases to a text that
  completes one of them, so the byte-level model decides the same matches.
\<close>

definition lower_char :: "char \<Rightarrow> char" where
  "lower_char c = (if 65 \<le> (of_char c :: nat) \<and> (of_char c :: nat) \<le> 90
                   then char_of ((of_char c :: nat) + 32) else c)"

definition lower :: "string \<Rightarrow> string" where
  "lower s = map lower_char s"

text \<open>\<open>p in s\<close> on strings: \<open>p\<close> occurs in \<open>s\<close> as a contiguous block.\<close>

fun starts_with :: "string \<Rightarrow> string \<Rightarrow> bool" where
  "starts_with [] s = True"
| "starts_with (p # ps) [] = False"
| "starts_with (p # ps) (c # cs) = (p = c \<and> starts_with ps cs)"

fun contains :: "string \<Rightarrow> string \<Rightarrow> bool" where
  "contains p [] = (p = [])"
| "contains p (c # cs) = (starts_with p (c # cs) \<or> contains p cs)"

text \<open>\<open>sep.join(xs)\<close>.\<close>

fun join :: "string \<Rightarrow> string list \<Rightarrow> string" where
  "join sep [] = []"
| "join sep [x] = x"
| "join sep (x # y # ys) = x @ sep @ join sep (y # ys)"

section \<open>db\_driver.py: the patient record store\<close>

subsection \<open>Timestamps\<close>

text \<open>
  The \<open>created_at\<close> column is filled by SQLite's \<open>DEFAULT CURRENT_TIMESTAMP\<close>, which
  writes the text \<open>YYYY-MM-DD HH:MM:SS\<close>; \<open>get_patient_by_id\<close> reads it back with
  \<open>datetime.fromisoformat\<close>.  A \<open>datetime\<close> is modelled by its six calendar fields.
  \<open>fromisoformat\<close> is modelled on the layout SQLite writes: it checks the layout and
  the calendar ranges as Python does (a \<open>ValueError\<close> is the result \<open>None\<close>); other
  ISO-8601 layouts that Python also accepts are not recognised here, and nothing below
  depends on them.
\<close>

record datetime =
  year :: nat
  month :: nat
  day :: nat
  hour :: nat
  minute :: nat
  second :: nat

definition is_leap :: "nat \<Rightarrow> bool" where
  "is_leap y = (y mod 4 = 0 \<and> (y mod 100 \<noteq> 0 \<or> y mod 400 = 0))"

definition days_in_month :: "nat \<Rightarrow> nat \<Rightarrow> nat" where
  "days_in_month y m =
     (if m = 2 then (if is_leap y then 29 else 28)
      else if m = 4 \<or> m = 6 \<or> m = 9 \<or> m = 11 then 30 else 31)"

definition valid_datetime :: "datetime \<Rightarrow> bool" where
  "valid_datetime t =
     (1 \<le> year t \<and> year t \<le> 9999 \<and> 1 \<le> month t \<and> month t \<le> 12 \<and>
      1 \<le> day t \<and> day t \<le> days_in_month (year t) (month t) \<and>
      hour t < 24 \<and> minute t < 60 \<and> second t < 60)"

definition pad2 :: "nat \<Rightarrow> string" where
  "pad2 n = [digit_char (n div 10 mod 10), digit_char (n mod 10)]"

definition pad4 :: "nat \<Rightarrow> string" where
  "pad4 n = [digit_char (n div 1000 mod 10), digit_char (n div 100 mod 10),
             digit_char (n div 10 mod 10), digit_char (n mod 10)]"

text \<open>The text SQLite stores for \<open>CURRENT_TIMESTAMP\<close> at the instant \<open>t\<close>.\<close>

definition current_timestamp :: "datetime \<Rightarrow> string" where
  "current_timestamp t =
     pad4 (year t) @ ''-'' @ pad2 (month t) @ ''-'' @ pad2 (day t) @ '' '' @
     pad2 (hour t) @ '':'' @ pad2 (minute t) @ '':'' @ pad2 (second t)"

definition to_nat :: "string \<Rightarrow> nat" where
  "to_nat s = foldl (\<lambda>a c. 10 * a + digit_val c) 0 s"

definition fromisoformat :: "string \<Rightarrow> datetime option" where
  "fromisoformat s =
     (if length s = 19 \<and>
         list_all is_digit (take 4 s) \<and> s ! 4 = CHR ''-'' \<and>
         list_all is_digit (take 2 (drop 5 s)) \<and> s ! 7 = CHR ''-'' \<and>
         list_all is_digit (take 2 (drop 8 s)) \<and> s ! 10 = CHR '' '' \<and>
         list_all is_digit (take 2 (drop 11 s)) \<and> s ! 13 = CHR '':'' \<and>
         list_all is_digit (take 2 (drop 14 s)) \<and> s ! 16 = CHR '':'' \<and>
         list_all is_digit (take 2 (drop 17 s))
      then
        (let t = \<lparr> year = to_nat (take 4 s), month = to_nat (take 2 (drop 5 s)),
                   day = to_nat (take 2 (drop 8 s)), hour = to_nat (take 2 (drop 11 s)),
                   minute = to_nat (take 2 (drop 14 s)), second = to_nat (take 2 (drop 17 s)) \<rparr>
         in if valid_datetime t then Some t else None)
      else None)"

subsection \<open>Records, rows and faults\<close>

text \<open>
  The dataclass \<open>Patient\<close>.  Python floats are only carried around by this program
  (stored, read back, printed), never computed with; they are modelled as reals.
\<close>

record Patient =
  patient_id :: string
  name :: string
  age :: int
  height :: real
  gender :: string
  blood_group :: string
  weight :: real
  created_at :: "datetime option"

text \<open>
  The table \<open>patients\<close>: \<open>patient_id TEXT PRIMARY KEY\<close> and seven further columns.
  A table is a map from the key to the rest of the row, so that a key names at most
  one row; \<open>created_at\<close> holds text or NULL.
\<close>

record row =
  col_name :: string
  col_age :: int
  col_height :: real
  col_gender :: string
  col_blood_group :: string
  col_weight :: real
  col_created_at :: "string option"

type_synonym table = "string \<rightharpoonup> row"

text \<open>
  The exceptions that cross function boundaries in the program.  \<open>IntegrityError\<close> is
  what \<open>sqlite3\<close> raises when the primary key of an inserted row is already present
  (the specification's \<open>DuplicateIdentifier\<close>); \<open>OperationalError\<close> is what it raises
  when the database file cannot be opened, read or written; \<open>OverflowError\<close> is what
  it raises while binding a Python integer that the 64-bit \<open>INTEGER\<close> of SQLite cannot
  hold.  \<open>ValueError\<close> is raised by \<open>int\<close>, \<open>float\<close> and \<open>get_current_patient\<close>.
\<close>

datatype exn =
    IntegrityError string
  | OperationalError string
  | OverflowError string
  | ValueError string

text \<open>
  The condition of the storage during one call of the driver: healthy, or failing
  with the text of the \<open>OperationalError\<close> that the first \<open>sqlite3\<close> operation raises.
\<close>

datatype io_status = IoOk | IoFault string

subsection \<open>The driver\<close>

text \<open>
  \<open>get_patient_by_id\<close>: \<open>SELECT * FROM patients WHERE patient_id = ?\<close>, then
  \<open>fetchone\<close>.  No row gives \<open>None\<close>.  Otherwise \<open>created_at\<close> is parsed when the cell
  is truthy (not NULL and not the empty text), a \<open>ValueError\<close> of the parser leaving
  it \<open>None\<close>.
\<close>

definition get_patient_by_id :: "io_status \<Rightarrow> table \<Rightarrow> string \<Rightarrow> exn + Patient option" where
  "get_patient_by_id io db pid =
     (case io of
        IoFault m \<Rightarrow> Inl (OperationalError m)
      | IoOk \<Rightarrow>
          (case db pid of
             None \<Rightarrow> Inr None
           | Some r \<Rightarrow>
               (let created =
                      (case col_created_at r of
                         None \<Rightarrow> None
                       | Some txt \<Rightarrow> if txt = [] then None else fromisoformat txt)
                in Inr (Some \<lparr> patient_id = pid, name = col_name r, age = col_age r,
                               height = col_height r, gender = col_gender r,
                               blood_group = col_blood_group r, weight = col_weight r,
                               created_at = created \<rparr>))))"

text \<open>
  \<open>random.randint(a, b)\<close> returns an integer of \<open>[a, b]\<close>.  The randomness is an input
  of the model: a raw draw \<open>r\<close> is reduced into the interval.
\<close>

definition randint :: "nat \<Rightarrow> nat \<Rightarrow> nat \<Rightarrow> nat" where
  "randint a b r = a + r mod (b - a + 1)"

text \<open>
  \<open>_generate_patient_id\<close>: \<open>while True\<close>, sample, build \<open>f"P{random_number}"\<close>, return
  it if the lookup finds nothing.  The loop has no bound in the source; the model
  consumes a list of raw draws, one per iteration, and the result \<open>None\<close> says that
  the loop has not returned after all of them.  An exception of the lookup leaves
  the loop.
\<close>

fun generate_patient_id :: "io_status \<Rightarrow> table \<Rightarrow> nat list \<Rightarrow> (exn + string) option" where
  "generate_patient_id io db [] = None"
| "generate_patient_id io db (r # rs) =
     (let random_number = randint 10000000 99999999 r;
          pid = CHR ''P'' # str_nat random_number
      in case get_patient_by_id io db pid of
           Inl e \<Rightarrow> Some (Inl e)
         | Inr None \<Rightarrow> Some (Inr pid)
         | Inr (Some p) \<Rightarrow> generate_patient_id io db rs)"

text \<open>
  Python integers are unbounded; the column \<open>age INTEGER\<close> holds a signed 64-bit value.
\<close>

definition fits_sqlite_integer :: "int \<Rightarrow> bool" where
  "fits_sqlite_integer i = (- 9223372036854775808 \<le> i \<and> i \<le> 9223372036854775807)"

text \<open>
  The \<open>INSERT\<close> of \<open>create_patient\<close> with its \<open>commit\<close>.  The connection is opened
  first; \<open>execute\<close> then binds the parameters, and an \<open>age\<close> outside the signed 64-bit
  range raises \<open>OverflowError\<close> before the statement runs.  The statement itself is
  rejected by the primary key when the key is present.  In each of these cases nothing
  is written (the connection is closed without a commit); otherwise the row is stored
  with \<open>created_at\<close> defaulting to the current timestamp \<open>now\<close>.
\<close>

definition insert_patient ::
  "io_status \<Rightarrow> datetime \<Rightarrow> table \<Rightarrow> string \<Rightarrow> string \<Rightarrow> int \<Rightarrow> real \<Rightarrow> string \<Rightarrow> string \<Rightarrow> real
     \<Rightarrow> exn + table" where
  "insert_patient io now db pid nm ag ht gd bg wt =
     (case io of
        IoFault m \<Rightarrow> Inl (OperationalError m)
      | IoOk \<Rightarrow>
          if \<not> fits_sqlite_integer ag
          then Inl (OverflowError ''Python int too large to convert to SQLite INTEGER'')
          else if db pid \<noteq> None
          then Inl (IntegrityError ''UNIQUE constraint failed: patients.patient_id'')
          else Inr (db(pid \<mapsto> \<lparr> col_name = nm, col_age = ag, col_height = ht,
                                  col_gender = gd, col_blood_group = bg, col_weight = wt,
                                  col_created_at = Some (current_timestamp now) \<rparr>)))"

text \<open>
  \<open>create_patient\<close>.  \<open>if not patient_id\<close> holds for an omitted and for an empty
  identifier.  The result pairs what the call returns or raises with the table
  after it; \<open>None\<close> is a call whose identifier loop has not returned.
\<close>

definition create_patient ::
  "io_status \<Rightarrow> datetime \<Rightarrow> nat list \<Rightarrow> table \<Rightarrow> string \<Rightarrow> int \<Rightarrow> real \<Rightarrow> string \<Rightarrow> string \<Rightarrow> real
     \<Rightarrow> string option \<Rightarrow> ((exn + Patient option) \<times> table) option" where
  "create_patient io now rs db nm ag ht gd bg wt pid_arg =
     (case (case pid_arg of
              None \<Rightarrow> generate_patient_id io db rs
            | Some p \<Rightarrow> if p = [] then generate_patient_id io db rs else Some (Inr p)) of
        None \<Rightarrow> None
      | Some (Inl e) \<Rightarrow> Some (Inl e, db)
      | Some (Inr pid) \<Rightarrow>
          (case insert_patient io now db pid nm ag ht gd bg wt of
             Inl e \<Rightarrow> Some (Inl e, db)
           | Inr db' \<Rightarrow> Some (get_patient_by_id io db' pid, db')))"


section \<open>api.py: the callable operations\<close>

text \<open>
  The dictionary \<open>_patient_details\<close> has seven fixed keys.  Every value starts as the
  empty string and is later overwritten by the field of a \<open>Patient\<close>: the four text
  entries are strings throughout, the three numeric entries are either still the
  initial empty string (\<open>Blank\<close>) or a number.
\<close>

datatype 'a slot = Blank | Filled 'a

record details =
  PATIENT_ID :: string
  NAME :: string
  AGE :: "int slot"
  HEIGHT :: "real slot"
  GENDER :: string
  BLOOD_GROUP :: string
  WEIGHT :: "real slot"

record HealthAssistantFnc =
  patient_details :: details
  symptoms :: "string list"
  conversation_complete :: bool

text \<open>\<open>__init__\<close>.\<close>

definition init_fnc :: HealthAssistantFnc where
  "init_fnc =
     \<lparr> patient_details =
         \<lparr> PATIENT_ID = [], NAME = [], AGE = Blank, HEIGHT = Blank, GENDER = [],
           BLOOD_GROUP = [], WEIGHT = Blank \<rparr>,
       symptoms = [], conversation_complete = False \<rparr>"

definition is_consultation_complete :: "HealthAssistantFnc \<Rightarrow> bool" where
  "is_consultation_complete s = conversation_complete s"

definition has_patient :: "HealthAssistantFnc \<Rightarrow> bool" where
  "has_patient s = (PATIENT_ID (patient_details s) \<noteq> [])"

text \<open>
  \<open>get_patient_str\<close>: one line \<open>key: value\<close> for every truthy value, in the order of
  the dictionary.  A number is truthy when it is not zero.  The text Python prints for
  a float is not modelled; it is the parameter \<open>float_repr\<close>.
\<close>

definition text_line :: "string \<Rightarrow> string \<Rightarrow> string" where
  "text_line k v = (if v \<noteq> [] then k @ '': '' @ v @ [CHR 0x0A] else [])"

definition int_line :: "string \<Rightarrow> int slot \<Rightarrow> string" where
  "int_line k v =
     (case v of Blank \<Rightarrow> []
      | Filled i \<Rightarrow> if i \<noteq> 0 then k @ '': '' @ str_int i @ [CHR 0x0A] else [])"

definition float_line :: "(real \<Rightarrow> string) \<Rightarrow> string \<Rightarrow> real slot \<Rightarrow> string" where
  "float_line float_repr k v =
     (case v of Blank \<Rightarrow> []
      | Filled x \<Rightarrow> if x \<noteq> 0 then k @ '': '' @ float_repr x @ [CHR 0x0A] else [])"

definition get_patient_str :: "(real \<Rightarrow> string) \<Rightarrow> HealthAssistantFnc \<Rightarrow> string" where
  "get_patient_str float_repr s =
     (let d = patient_details s in
        text_line ''patient_id'' (PATIENT_ID d) @
        text_line ''name'' (NAME d) @
        int_line ''age'' (AGE d) @
        float_line float_repr ''height'' (HEIGHT d) @
        text_line ''gender'' (GENDER d) @
        text_line ''blood_group'' (BLOOD_GROUP d) @
        float_line float_repr ''weight'' (WEIGHT d))"

text \<open>
  The dictionary literal that \<open>lookup_patient\<close> and \<open>create_patient\<close> both assign to
  \<open>_patient_details\<close>: the seven fields of the record \<open>result\<close>.
\<close>

definition details_of :: "Patient \<Rightarrow> details" where
  "details_of result =
     \<lparr> PATIENT_ID = patient_id result, NAME = name result, AGE = Filled (age result),
       HEIGHT = Filled (height result), GENDER = gender result,
       BLOOD_GROUP = blood_group result, WEIGHT = Filled (weight result) \<rparr>"

text \<open>
  The operations return what the Python method returns or raises, with the object
  (and, where the store is written, the table) after the call.  None of the first five
  has a \<open>try\<close>: an exception of the store leaves the method as it is.
\<close>

definition lookup_patient ::
  "(real \<Rightarrow> string) \<Rightarrow> io_status \<Rightarrow> table \<Rightarrow> string \<Rightarrow> HealthAssistantFnc
     \<Rightarrow> (exn + string) \<times> HealthAssistantFnc" where
  "lookup_patient float_repr io db pid s =
     (case get_patient_by_id io db pid of
        Inl e \<Rightarrow> (Inl e, s)
      | Inr None \<Rightarrow> (Inr ''Patient not found'', s)
      | Inr (Some result) \<Rightarrow>
          (let s' = s\<lparr> patient_details := details_of result \<rparr>
           in (Inr (''The patient details are: '' @ get_patient_str float_repr s'), s')))"

definition get_patient_details :: "(real \<Rightarrow> string) \<Rightarrow> HealthAssistantFnc \<Rightarrow> string" where
  "get_patient_details float_repr s = ''The patient details are: '' @ get_patient_str float_repr s"

text \<open>
  \<open>HealthAssistantFnc.create_patient\<close> (the driver's method of the same name is
  \<open>create_patient\<close> above).  It calls the driver without an identifier.
\<close>

definition fnc_create_patient ::
  "io_status \<Rightarrow> datetime \<Rightarrow> nat list \<Rightarrow> table \<Rightarrow> string \<Rightarrow> int \<Rightarrow> real \<Rightarrow> string \<Rightarrow> string \<Rightarrow> real
     \<Rightarrow> HealthAssistantFnc \<Rightarrow> ((exn + string) \<times> HealthAssistantFnc \<times> table) option" where
  "fnc_create_patient io now rs db nm ag ht gd bg wt s =
     (case create_patient io now rs db nm ag ht gd bg wt None of
        None \<Rightarrow> None
      | Some (Inl e, db') \<Rightarrow> Some (Inl e, s, db')
      | Some (Inr None, db') \<Rightarrow> Some (Inr ''Failed to create patient'', s, db')
      | Some (Inr (Some result), db') \<Rightarrow>
          Some (Inr (''Patient created! Your patient ID is: '' @ patient_id result),
                s\<lparr> patient_details := details_of result \<rparr>, db'))"

definition add_symptom :: "string \<Rightarrow> HealthAssistantFnc \<Rightarrow> string \<times> HealthAssistantFnc" where
  "add_symptom symptom s =
     (let s' = s\<lparr> symptoms := symptoms s @ [symptom] \<rparr>
      in (''Symptom added: '' @ symptom @ ''. Total symptoms recorded: '' @
            str_nat (length (symptoms s')), s'))"

text \<open>
  \<open>get_symptoms\<close>: the loop \<open>for i, symptom in enumerate(self._symptoms, 1)\<close> appends
  one line per symptom to \<open>symptoms_str\<close>.
\<close>

fun symptoms_loop :: "nat \<Rightarrow> string list \<Rightarrow> string \<Rightarrow> string" where
  "symptoms_loop i [] symptoms_str = symptoms_str"
| "symptoms_loop i (symptom # rest) symptoms_str =
     symptoms_loop (Suc i) rest (symptoms_str @ str_nat i @ ''. '' @ symptom @ [CHR 0x0A])"

definition get_symptoms :: "HealthAssistantFnc \<Rightarrow> string" where
  "get_symptoms s =
     (if symptoms s = [] then ''No symptoms have been recorded yet.''
      else symptoms_loop 1 (symptoms s) (''Recorded symptoms:'' @ [CHR 0x0A]))"

text \<open>\<open>int(v)\<close> and \<open>float(v)\<close> on a dictionary value: the empty string is rejected.\<close>

definition py_int :: "int slot \<Rightarrow> exn + int" where
  "py_int v =
     (case v of
        Blank \<Rightarrow> Inl (ValueError (''invalid literal for int() with base 10: '' @ [CHR 0x27, CHR 0x27]))
      | Filled i \<Rightarrow> Inr i)"

definition py_float :: "real slot \<Rightarrow> exn + real" where
  "py_float v =
     (case v of
        Blank \<Rightarrow> Inl (ValueError (''could not convert string to float: '' @ [CHR 0x27, CHR 0x27]))
      | Filled x \<Rightarrow> Inr x)"

text \<open>
  \<open>get_current_patient\<close>.  The arguments of \<open>Patient(...)\<close> are evaluated in order, so
  the first failing conversion decides the exception; \<open>created_at\<close> is not passed.
\<close>

definition get_current_patient :: "HealthAssistantFnc \<Rightarrow> exn + Patient" where
  "get_current_patient s =
     (if \<not> has_patient s then Inl (ValueError ''No patient information available'')
      else
        (let d = patient_details s in
           case py_int (AGE d) of
             Inl e \<Rightarrow> Inl e
           | Inr a \<Rightarrow>
               (case py_float (HEIGHT d) of
                  Inl e \<Rightarrow> Inl e
                | Inr h \<Rightarrow>
                    (case py_float (WEIGHT d) of
                       Inl e \<Rightarrow> Inl e
                     | Inr w \<Rightarrow>
                         Inr \<lparr> patient_id = PATIENT_ID d, name = NAME d, age = a, height = h,
                               gender = GENDER d, blood_group = BLOOD_GROUP d, weight = w,
                               created_at = None \<rparr>))))"

text \<open>\<open>str(e)\<close>.\<close>

fun str_exn :: "exn \<Rightarrow> string" where
  "str_exn (IntegrityError m) = m"
| "str_exn (OperationalError m) = m"
| "str_exn (OverflowError m) = m"
| "str_exn (ValueError m) = m"

text \<open>
  \<open>end_consultation\<close>.  The report generator (\<open>report_generator.py\<close>) is a parameter:
  \<open>generate_and_save_report patient symptoms\<close> is \<open>Inr path\<close> when the call returns
  the path of the saved file and \<open>Inl txt\<close> when it raises an exception \<open>e\<close> with
  \<open>str(e) = txt\<close>.  The \<open>try\<close> covers \<open>get_current_patient\<close> and the generator, and
  \<open>except Exception\<close> catches both.
\<close>

definition end_consultation ::
  "(Patient \<Rightarrow> string list \<Rightarrow> string + string) \<Rightarrow> HealthAssistantFnc \<Rightarrow> string \<times> HealthAssistantFnc" where
  "end_consultation generate_and_save_report s =
     (if \<not> has_patient s
      then (''Cannot end consultation: No patient information available.'', s)
      else
        (case (case get_current_patient s of
                 Inl e \<Rightarrow> Inl (str_exn e)
               | Inr patient \<Rightarrow> generate_and_save_report patient (symptoms s)) of
           Inr report_path \<Rightarrow>
             (''Consultation complete! Your diagnostic report has been generated and saved. Thank you for using our health assistant service. Report saved as: '' @ report_path,
              s\<lparr> conversation_complete := True \<rparr>)
         | Inl txt \<Rightarrow>
             (''Consultation marked as complete, but there was an issue generating your report: '' @ txt @ ''. Please contact support if needed.'',
              s\<lparr> conversation_complete := True \<rparr>)))"

section \<open>prompts.py\<close>

definition LOOKUP_PATIENT_MESSAGE :: "string \<Rightarrow> string" where
  "LOOKUP_PATIENT_MESSAGE msg =
     ''If the patient has provided a patient ID attempt to look it up. '' @ [CHR 0x0A] @
     ''                                    If they don'' @ [CHR 0x27] @
     ''t have a patient ID or the patient ID does not exist in the database '' @ [CHR 0x0A] @
     ''                                    create the entry in the database using your tools. If the patient doesn'' @
     [CHR 0x27] @ ''t have an ID, ask them for the'' @ [CHR 0x0A] @
     ''                                    details required to create a new patient profile (name, age, height, gender, blood group, weight). Here is the patient'' @
     [CHR 0x27] @ ''s message: '' @ msg"

definition SYMPTOM_COLLECTION_MESSAGE :: "string" where
  "SYMPTOM_COLLECTION_MESSAGE =
     [CHR 0x0A] @ ''    Now that we have your basic information, let'' @ [CHR 0x27] @
     ''s discuss your symptoms. Please describe what symptoms you'' @ [CHR 0x27] @
     ''re experiencing, '' @ [CHR 0x0A] @
     ''    including when they started, how severe they are, and any other details you think might be relevant. '' @
     [CHR 0x0A] @ ''    I'' @ [CHR 0x27] @
     ''ll ask follow-up questions to better understand your condition.'' @ [CHR 0x0A]"

definition SYMPTOM_FOLLOWUP_MESSAGE :: "string list \<Rightarrow> string" where
  "SYMPTOM_FOLLOWUP_MESSAGE syms =
     ''Based on the symptoms you'' @ [CHR 0x27] @ ''ve mentioned so far: '' @
     join '', '' syms @ '', '' @ [CHR 0x0A] @
     ''                                            I'' @ [CHR 0x27] @
     ''d like to gather more details. Can you tell me more about the severity, '' @
     [CHR 0x0A] @
     ''                                            duration, or any patterns you'' @
     [CHR 0x27] @ ''ve noticed with these symptoms? '' @ [CHR 0x0A] @
     ''                                            Are there any other symptoms you'' @
     [CHR 0x27] @ ''re experiencing?''"

definition CONVERSATION_COMPLETION_MESSAGE :: "string" where
  "CONVERSATION_COMPLETION_MESSAGE =
     [CHR 0x0A] @
     ''    Thank you for providing all this information. Is there anything else you'' @
     [CHR 0x27] @ ''d like to add about your symptoms or condition? '' @ [CHR 0x0A] @
     ''    If you feel we'' @ [CHR 0x27] @
     ''ve covered everything, I can generate your initial diagnostic report now.'' @ [CHR 0x0A]"

definition REPORT_GENERATION_MESSAGE :: "string" where
  "REPORT_GENERATION_MESSAGE =
     [CHR 0x0A] @ ''    I'' @ [CHR 0x27] @
     ''m now generating your diagnostic report based on the information and symptoms you'' @
     [CHR 0x27] @ ''ve provided. '' @ [CHR 0x0A] @
     ''    This report will be saved for your healthcare provider to review. Thank you for using our health assistant service.'' @
     [CHR 0x0A]"

section \<open>agent.py: the phase controller\<close>

text \<open>
  The closure variables of \<open>entrypoint\<close> and the function context form the state of
  one conversation.  \<open>conversation_phase\<close> only ever holds one of three string
  literals.  What a handler does to the session is the list of its calls, in order.
  An utterance is the text \<open>msg.content\<close>; the replacement of list content by
  placeholders, before the handler's first test, is not modelled.
\<close>

datatype phase = Info_collection | Symptoms | Completion

datatype role = Assistant | System | User

datatype session_call = Item_create role string | Response_create

record agent =
  conversation_phase :: phase
  symptoms_collected :: bool
  assistant_fnc :: HealthAssistantFnc

definition init_agent :: agent where
  "init_agent =
     \<lparr> conversation_phase = Info_collection, symptoms_collected = False,
       assistant_fnc = init_fnc \<rparr>"

definition completion_phrases :: "string list" where
  "completion_phrases =
     [''that'' @ [CHR 0x27] @ ''s all'', ''nothing else'', ''done'', ''complete'', ''finish'',
      ''end consultation'']"

definition affirmative_phrases :: "string list" where
  "affirmative_phrases = [''yes'', ''generate'', ''complete'', ''done'', ''finish'']"

text \<open>\<open>any(phrase in user_content for phrase in phrases)\<close>.\<close>

definition any_phrase_in :: "string list \<Rightarrow> string \<Rightarrow> bool" where
  "any_phrase_in phrases user_content = list_ex (\<lambda>phrase. contains phrase user_content) phrases"

definition find_profile :: "string \<Rightarrow> agent \<Rightarrow> agent \<times> session_call list" where
  "find_profile content a = (a, [Item_create System (LOOKUP_PATIENT_MESSAGE content), Response_create])"

definition handle_query :: "string \<Rightarrow> phase \<Rightarrow> bool \<Rightarrow> agent \<Rightarrow> agent \<times> session_call list" where
  "handle_query content ph collected a =
     (if ph = Info_collection \<and> has_patient (assistant_fnc a) then
        (a\<lparr> conversation_phase := Symptoms \<rparr>,
         [Item_create System (SYMPTOM_COLLECTION_MESSAGE @ '' User message: '' @ content),
          Response_create])
      else if ph = Symptoms then
        (let user_content = lower content in
           if any_phrase_in completion_phrases user_content then
             (a\<lparr> conversation_phase := Completion \<rparr>,
              [Item_create System (CONVERSATION_COMPLETION_MESSAGE @ '' User message: '' @ content),
               Response_create])
           else
             (let current_symptoms = get_symptoms (assistant_fnc a) in
                if contains ''No symptoms'' current_symptoms then
                  (a, [Item_create System (''Collect the patient'' @ [CHR 0x27] @ ''s symptoms. User message: '' @ content),
                       Response_create])
                else
                  (a, [Item_create System (SYMPTOM_FOLLOWUP_MESSAGE (symptoms (assistant_fnc a)) @ '' User message: '' @ content),
                       Response_create])))
      else if ph = Completion then
        (let user_content = lower content in
           if any_phrase_in affirmative_phrases user_content then
             (a, [Item_create System (REPORT_GENERATION_MESSAGE @ '' Please call the end_consultation function to generate the report.''),
                  Response_create])
           else
             (a\<lparr> conversation_phase := Symptoms \<rparr>,
              [Item_create System (''Continue collecting symptoms or information. User message: '' @ content),
               Response_create]))
      else
        (a, [Item_create User content, Response_create]))"

definition on_user_speech_committed :: "string \<Rightarrow> agent \<Rightarrow> agent \<times> session_call list" where
  "on_user_speech_committed content a =
     (if is_consultation_complete (assistant_fnc a) then
        (a, [Item_create Assistant ''Your consultation has been completed and your report has been generated. Thank you!'',
             Response_create])
      else if has_patient (assistant_fnc a) then
        handle_query content (conversation_phase a) (symptoms_collected a) a
      else find_profile content a)"

section \<open>Sample data\<close>

text \<open>
  A stored row, a table holding it, an instant of the clock, a function context that has
  adopted the stored patient and recorded two symptoms, and a controller in the symptoms
  phase.  They are the concrete inputs of the worked instances below.
\<close>

definition sample_row :: row where
  "sample_row =
     \<lparr> col_name = ''John Doe'', col_age = 30, col_height = 175.5, col_gender = ''Male'',
       col_blood_group = ''O+'', col_weight = 70, col_created_at = Some ''2024-02-01 14:30:45'' \<rparr>"

definition sample_db :: table where
  "sample_db = [''P10000005'' \<mapsto> sample_row]"

definition sample_now :: datetime where
  "sample_now = \<lparr> year = 2024, month = 2, day = 29, hour = 14, minute = 30, second = 45 \<rparr>"

definition sample_fnc :: HealthAssistantFnc where
  "sample_fnc =
     \<lparr> patient_details =
         \<lparr> PATIENT_ID = ''P10000005'', NAME = ''John Doe'', AGE = Filled 30, HEIGHT = Filled 175.5,
           GENDER = ''Male'', BLOOD_GROUP = ''O+'', WEIGHT = Filled 70 \<rparr>,
       symptoms = [''Headache'', ''Fever''], conversation_complete = False \<rparr>"

definition sample_agent :: agent where
  "sample_agent = \<lparr> conversation_phase = Symptoms, symptoms_collected = False, assistant_fnc = sample_fnc \<rparr>"


section \<open>Decimal digits and timestamps\<close>

lemma str_nat_small: "n < 10 \<Longrightarrow> str_nat n = [digit_char n]"
  by (subst str_nat.simps) simp

lemma str_nat_large: "10 \<le> n \<Longrightarrow> str_nat n = str_nat (n div 10) @ [digit_char (n mod 10)]"
  by (subst str_nat.simps) simp

lemma of_char_digit_char: "d < 10 \<Longrightarrow> (of_char (digit_char d) :: nat) = 48 + d"
  by (simp add: digit_char_def)

lemma is_digit_digit_char: "d < 10 \<Longrightarrow> is_digit (digit_char d)"
  by (simp add: is_digit_def of_char_digit_char)

lemma digit_val_digit_char: "d < 10 \<Longrightarrow> digit_val (digit_char d) = d"
  by (simp add: digit_val_def of_char_digit_char)

lemma digit_char_numerals:
  "digit_char 0 = CHR ''0''" "digit_char 1 = CHR ''1''" "digit_char 2 = CHR ''2''"
  "digit_char 3 = CHR ''3''" "digit_char 4 = CHR ''4''" "digit_char 5 = CHR ''5''"
  "digit_char 6 = CHR ''6''" "digit_char 7 = CHR ''7''" "digit_char 8 = CHR ''8''"
  "digit_char 9 = CHR ''9''" "digit_char (Suc 0) = CHR ''1''"
  unfolding digit_char_def char_of_def by (simp_all add: bit_Suc_0_iff)

lemmas str_nat_eval = str_nat_small str_nat_large digit_char_numerals

lemma str_nat_all_digits: "list_all is_digit (str_nat n)"
proof (induction n rule: str_nat.induct)
  case (1 n)
  show ?case
  proof (cases "n < 10")
    case True
    then show ?thesis by (simp add: str_nat_small is_digit_digit_char)
  next
    case False
    with 1 show ?thesis by (simp add: str_nat_large is_digit_digit_char)
  qed
qed

lemma length_str_nat: "10 ^ k \<le> n \<Longrightarrow> n < 10 ^ Suc k \<Longrightarrow> length (str_nat n) = Suc k"
proof (induction k arbitrary: n)
  case 0
  then show ?case by (simp add: str_nat_small)
next
  case (Suc k)
  from Suc.prems have ge: "10 \<le> n"
    by (metis One_nat_def Suc_leI le_trans nat_one_le_power power_Suc zero_less_numeral mult.right_neutral mult_le_mono2)
  from Suc.prems have "10 ^ k \<le> n div 10" "n div 10 < 10 ^ Suc k"
    by (simp_all add: less_mult_imp_div_less mult.commute div_greater_zero_iff) 
  then have "length (str_nat (n div 10)) = Suc k" by (rule Suc.IH)
  with ge show ?case by (simp add: str_nat_large)
qed

lemma randint_range: "a \<le> b \<Longrightarrow> a \<le> randint a b r \<and> randint a b r \<le> b"
proof -
  assume ab: "a \<le> b"
  have "r mod (b - a + 1) < b - a + 1" by simp
  with ab show ?thesis unfolding randint_def by linarith
qed

text \<open>
  Reading back what \<open>CURRENT_TIMESTAMP\<close> wrote: the parser returns the instant that was
  formatted.
\<close>

lemma dec2: "10 * (n div 10 mod 10) + n mod 10 = (n::nat) mod 100"
proof -
  have "n mod 100 = n mod (10 * 10)" by simp
  also have "\<dots> = 10 * (n div 10 mod 10) + n mod 10" by (simp only: mod_mult2_eq)
  finally show ?thesis by simp
qed

lemma dec4: "10 * (10 * (10 * (n div 1000 mod 10) + n div 100 mod 10) + n div 10 mod 10) + n mod 10 = (n::nat) mod 10000"
proof -
  have h: "n div 1000 = n div 100 div 10" "n div 100 = n div 10 div 10"
    by (simp_all add: div_mult2_eq[symmetric])
  have "n mod 10000 = n mod (100 * 100)" by simp
  also have "\<dots> = 100 * (n div 100 mod 100) + n mod 100" by (simp only: mod_mult2_eq)
  also have "n div 100 mod 100 = 10 * (n div 100 div 10 mod 10) + n div 100 mod 10" by (simp only: dec2)
  also have "n mod 100 = 10 * (n div 10 mod 10) + n mod 10" by (simp only: dec2)
  finally show ?thesis by (simp add: h)
qed

lemma pad2_parse: "n < 100 \<Longrightarrow> to_nat (pad2 n) = n"
  by (simp add: pad2_def to_nat_def digit_val_digit_char)

lemma pad4_parse: "n < 10000 \<Longrightarrow> to_nat (pad4 n) = n"
  using dec4 [of n] by (simp add: pad4_def to_nat_def digit_val_digit_char)

lemma pad2_digits: "list_all is_digit (pad2 n)"
  by (simp add: pad2_def is_digit_digit_char)

lemma pad4_digits: "list_all is_digit (pad4 n)"
  by (simp add: pad4_def is_digit_digit_char)

lemma length_pad2: "length (pad2 n) = 2"
  by (simp add: pad2_def)

lemma length_pad4: "length (pad4 n) = 4"
  by (simp add: pad4_def)

lemma timestamp_shape:
  "current_timestamp t =
     pad4 (year t) @ CHR ''-'' # pad2 (month t) @ CHR ''-'' # pad2 (day t) @ CHR '' '' #
     pad2 (hour t) @ CHR '':'' # pad2 (minute t) @ CHR '':'' # pad2 (second t)"
  by (simp add: current_timestamp_def)

lemma valid_datetime_bounds:
  assumes "valid_datetime t"
  shows "year t < 10000" "month t < 100" "day t < 100" "hour t < 100" "minute t < 100" "second t < 100"
  using assms by (simp_all add: valid_datetime_def days_in_month_def split: if_splits)

lemma fromisoformat_current_timestamp:
  assumes v: "valid_datetime t"
  shows "fromisoformat (current_timestamp t) = Some t"
proof -
  obtain y4 where y4: "pad4 (year t) = y4" "length y4 = 4" "list_all is_digit y4" "to_nat y4 = year t"
    using valid_datetime_bounds(1)[OF v] by (simp add: length_pad4 pad4_digits pad4_parse)
  obtain mo where mo: "pad2 (month t) = mo" "length mo = 2" "list_all is_digit mo" "to_nat mo = month t"
    using valid_datetime_bounds(2)[OF v] by (simp add: length_pad2 pad2_digits pad2_parse)
  obtain dd where dd: "pad2 (day t) = dd" "length dd = 2" "list_all is_digit dd" "to_nat dd = day t"
    using valid_datetime_bounds(3)[OF v] by (simp add: length_pad2 pad2_digits pad2_parse)
  obtain hh where hh: "pad2 (hour t) = hh" "length hh = 2" "list_all is_digit hh" "to_nat hh = hour t"
    using valid_datetime_bounds(4)[OF v] by (simp add: length_pad2 pad2_digits pad2_parse)
  obtain mi where mi: "pad2 (minute t) = mi" "length mi = 2" "list_all is_digit mi" "to_nat mi = minute t"
    using valid_datetime_bounds(5)[OF v] by (simp add: length_pad2 pad2_digits pad2_parse)
  obtain ss where ss: "pad2 (second t) = ss" "length ss = 2" "list_all is_digit ss" "to_nat ss = second t"
    using valid_datetime_bounds(6)[OF v] by (simp add: length_pad2 pad2_digits pad2_parse)
  have shape: "current_timestamp t = y4 @ CHR ''-'' # mo @ CHR ''-'' # dd @ CHR '' '' # hh @ CHR '':'' # mi @ CHR '':'' # ss"
    by (simp add: timestamp_shape y4 mo dd hh mi ss)
  have whole: "\<lparr> year = year t, month = month t, day = day t, hour = hour t, minute = minute t, second = second t \<rparr> = t"
    by simp
  show ?thesis
    unfolding fromisoformat_def shape
    using v y4(2-) mo(2-) dd(2-) hh(2-) mi(2-) ss(2-)
    by (simp add: nth_append Let_def whole)
qed

lemma current_timestamp_nonempty: "current_timestamp t \<noteq> []"
  by (simp add: current_timestamp_def pad4_def)

lemma sample_now_valid: "valid_datetime sample_now"
  by (simp add: valid_datetime_def sample_now_def days_in_month_def is_leap_def)


section \<open>The patient record store\<close>

lemma get_patient_by_id_miss: "db pid = None \<Longrightarrow> get_patient_by_id IoOk db pid = Inr None"
  by (simp add: get_patient_by_id_def)

lemma get_patient_by_id_hit:
  "db pid = Some r \<Longrightarrow>
   get_patient_by_id IoOk db pid =
     Inr (Some \<lparr> patient_id = pid, name = col_name r, age = col_age r, height = col_height r,
                 gender = col_gender r, blood_group = col_blood_group r, weight = col_weight r,
                 created_at = (case col_created_at r of None \<Rightarrow> None
                               | Some txt \<Rightarrow> if txt = [] then None else fromisoformat txt) \<rparr>)"
  by (simp add: get_patient_by_id_def)

lemma get_patient_by_id_fault: "get_patient_by_id (IoFault m) db pid = Inl (OperationalError m)"
  by (simp add: get_patient_by_id_def)

lemma get_patient_by_id_None_iff: "get_patient_by_id io db pid = Inr None \<longleftrightarrow> io = IoOk \<and> db pid = None"
  by (cases io; cases "db pid") (simp_all add: get_patient_by_id_def)

lemma sample_lookup:
  "get_patient_by_id IoOk sample_db ''P10000005'' =
     Inr (Some \<lparr> patient_id = ''P10000005'', name = ''John Doe'', age = 30, height = 175.5,
                 gender = ''Male'', blood_group = ''O+'', weight = 70,
                 created_at = Some \<lparr> year = 2024, month = 2, day = 1, hour = 14, minute = 30, second = 45 \<rparr> \<rparr>)"
  by (simp add: get_patient_by_id_def sample_db_def sample_row_def fromisoformat_def is_digit_def
                to_nat_def digit_val_def valid_datetime_def days_in_month_def Let_def)

subsection \<open>Identifier generation\<close>

lemma candidate_shape:
  "\<exists>ds. CHR ''P'' # str_nat (randint 10000000 99999999 r) = CHR ''P'' # ds \<and> length ds = 8 \<and> list_all is_digit ds"
proof -
  have "10 ^ 7 \<le> randint 10000000 99999999 r" "randint 10000000 99999999 r < 10 ^ Suc 7"
    using randint_range [of 10000000 99999999 r] by simp_all
  then have "length (str_nat (randint 10000000 99999999 r)) = Suc 7"
    by (rule length_str_nat)
  then show ?thesis by (simp add: str_nat_all_digits)
qed

lemma generate_patient_id_sound:
  "generate_patient_id io db rs = Some (Inr pid) \<Longrightarrow>
   (\<exists>r \<in> set rs. pid = CHR ''P'' # str_nat (randint 10000000 99999999 r)) \<and> db pid = None \<and> io = IoOk"
proof (induction rs)
  case Nil
  then show ?case by simp
next
  case (Cons r rs)
  let ?cand = "CHR ''P'' # str_nat (randint 10000000 99999999 r)"
  show ?case
  proof (cases "get_patient_by_id io db ?cand")
    case (Inl e)
    with Cons.prems show ?thesis by (simp add: Let_def)
  next
    case (Inr res)
    show ?thesis
    proof (cases res)
      case None
      with Inr have "io = IoOk \<and> db ?cand = None" by (simp add: get_patient_by_id_None_iff)
      moreover from None Inr Cons.prems have "pid = ?cand" by (simp add: Let_def)
      ultimately show ?thesis by simp
    next
      case (Some p)
      with Inr Cons.prems have "generate_patient_id io db rs = Some (Inr pid)" by (simp add: Let_def)
      with Cons.IH show ?thesis by auto
    qed
  qed
qed


text \<open>
  The loop returns as soon as one draw gives an identifier that is not stored: given such a
  draw among those supplied, the result is an identifier and not \<open>None\<close>.
\<close>

lemma generate_patient_id_returns:
  "r \<in> set rs \<Longrightarrow> db (CHR ''P'' # str_nat (randint 10000000 99999999 r)) = None \<Longrightarrow>
   \<exists>pid. generate_patient_id IoOk db rs = Some (Inr pid)"
proof (induction rs)
  case Nil
  then show ?case by simp
next
  case (Cons x rs)
  let ?cand = "CHR ''P'' # str_nat (randint 10000000 99999999 x)"
  show ?case
  proof (cases "db ?cand")
    case None
    then show ?thesis by (simp add: Let_def get_patient_by_id_miss)
  next
    case (Some row)
    with Cons.prems have "r \<in> set rs" by auto
    with Cons have "\<exists>pid. generate_patient_id IoOk db rs = Some (Inr pid)" by blast
    with Some show ?thesis by (simp add: Let_def get_patient_by_id_hit)
  qed
qed

lemma sample_generation: "generate_patient_id IoOk sample_db [5, 7] = Some (Inr ''P10000007'')"
  by (simp add: randint_def str_nat_eval get_patient_by_id_def sample_db_def Let_def)

text \<open>
  Claim C9.  Every identifier returned by \<open>_generate_patient_id\<close> is the letter \<open>P\<close>
  followed by exactly eight decimal digits (it matches \<open>^P\\d{8}$\<close>), and it is absent from
  storage when it is returned: the table has no row under it and \<open>get_patient_by_id\<close>
  finds nothing.
\<close>

theorem generated_id_well_formed_and_fresh:
  assumes "generate_patient_id io db rs = Some (Inr pid)"
  shows "(\<exists>ds. pid = CHR ''P'' # ds \<and> length ds = 8 \<and> list_all is_digit ds) \<and>
         db pid = None \<and> get_patient_by_id io db pid = Inr None"
proof -
  from generate_patient_id_sound [OF assms]
  obtain r where "pid = CHR ''P'' # str_nat (randint 10000000 99999999 r)" and fresh: "db pid = None" "io = IoOk"
    by blast
  with candidate_shape [of r] show ?thesis by (simp add: get_patient_by_id_miss)
qed

text \<open>
  An instance: the first draw gives \<open>P10000005\<close>, which is stored, the second gives
  \<open>P10000007\<close>, which is returned.
\<close>

theorem generated_id_witness:
  "generate_patient_id IoOk sample_db [5, 7] = Some (Inr ''P10000007'') \<and>
   (\<exists>ds. ''P10000007'' = CHR ''P'' # ds \<and> length ds = 8 \<and> list_all is_digit ds) \<and>
   sample_db ''P10000007'' = None \<and> get_patient_by_id IoOk sample_db ''P10000007'' = Inr None"
  using generated_id_well_formed_and_fresh [OF sample_generation] sample_generation by simp

subsection \<open>Creation and retrieval\<close>



lemma insert_patient_stored:
  "insert_patient io now db pid nm ag ht gd bg wt = Inr db' \<Longrightarrow>
   io = IoOk \<and> fits_sqlite_integer ag \<and> db pid = None \<and> db' pid \<noteq> None"
  by (cases io) (auto simp: insert_patient_def split: if_splits)


lemma create_patient_fresh:
  assumes now: "valid_datetime now"
      and age: "fits_sqlite_integer ag"
      and ident: "(pid_arg = Some pid \<and> pid \<noteq> [] \<and> db pid = None) \<or>
                  ((pid_arg = None \<or> pid_arg = Some []) \<and> generate_patient_id IoOk db rs = Some (Inr pid))"
  shows "create_patient IoOk now rs db nm ag ht gd bg wt pid_arg =
           Some (Inr (Some \<lparr> patient_id = pid, name = nm, age = ag, height = ht, gender = gd,
                             blood_group = bg, weight = wt, created_at = Some now \<rparr>),
                 db(pid \<mapsto> \<lparr> col_name = nm, col_age = ag, col_height = ht, col_gender = gd,
                               col_blood_group = bg, col_weight = wt,
                               col_created_at = Some (current_timestamp now) \<rparr>))"
proof -
  from ident have fresh: "db pid = None"
    using generate_patient_id_sound by blast
  from ident have chosen:
    "(case pid_arg of None \<Rightarrow> generate_patient_id IoOk db rs
      | Some p \<Rightarrow> if p = [] then generate_patient_id IoOk db rs else Some (Inr p)) = Some (Inr pid)"
    by auto
  from fresh age have ins:
    "insert_patient IoOk now db pid nm ag ht gd bg wt =
       Inr (db(pid \<mapsto> \<lparr> col_name = nm, col_age = ag, col_height = ht, col_gender = gd,
                         col_blood_group = bg, col_weight = wt,
                         col_created_at = Some (current_timestamp now) \<rparr>))"
    by (simp add: insert_patient_def)
  show ?thesis
    using now by (simp add: create_patient_def chosen ins get_patient_by_id_hit
                            current_timestamp_nonempty fromisoformat_current_timestamp)
qed

lemma create_patient_not_None:
  "create_patient io now rs db nm ag ht gd bg wt pid_arg \<noteq> Some (Inr None, db')"
proof
  assume c: "create_patient io now rs db nm ag ht gd bg wt pid_arg = Some (Inr None, db')"
  then obtain pid where ins: "insert_patient io now db pid nm ag ht gd bg wt = Inr db'"
      and get: "get_patient_by_id io db' pid = Inr None"
    by (auto simp: create_patient_def split: option.splits sum.splits if_splits)
  from get have "db' pid = None" by (simp add: get_patient_by_id_None_iff)
  with insert_patient_stored [OF ins] show False by simp
qed

text \<open>
  Claim C6 says that for all valid field values \<open>create\<close> followed by \<open>getById\<close> yields
  the record.  An age is valid when it is a non-negative integer; for one beyond the
  signed 64-bit range, with a fresh identifier, \<open>create_patient\<close> raises
  \<open>OverflowError\<close>, returns no record and writes nothing.
\<close>

theorem create_overflow_counterexample:
  "sample_db ''P99999999'' = None \<and>
   create_patient IoOk sample_now [] sample_db ''Bob Wilson'' 9223372036854775808 180 ''Male'' ''AB-'' 80
       (Some ''P99999999'') =
     Some (Inl (OverflowError ''Python int too large to convert to SQLite INTEGER''), sample_db)"
  by (simp add: create_patient_def insert_patient_def fits_sqlite_integer_def sample_db_def)

text \<open>
  Claim C6, amended.  For all field values whose age fits the 64-bit \<open>INTEGER\<close> column,
  when \<open>create_patient\<close> is called on a healthy store with an identifier that is supplied
  and not yet stored, or with none and a draw of the identifier loop that is not stored,
  the call returns a record, and \<open>get_patient_by_id\<close> with the identifier of that record
  then yields the same record: its fields are the supplied values, its identifier is
  the supplied one (or one that was not stored), and \<open>created_at\<close> is populated with
  the instant of the insertion.
\<close>

theorem create_then_get_by_id:
  assumes now: "valid_datetime now"
      and age: "fits_sqlite_integer ag"
      and ident: "(pid_arg = Some pid \<and> pid \<noteq> [] \<and> db pid = None) \<or>
                  ((pid_arg = None \<or> pid_arg = Some []) \<and> r \<in> set rs \<and>
                   db (CHR ''P'' # str_nat (randint 10000000 99999999 r)) = None)"
  shows "\<exists>db' p. create_patient IoOk now rs db nm ag ht gd bg wt pid_arg = Some (Inr (Some p), db') \<and>
           get_patient_by_id IoOk db' (patient_id p) = Inr (Some p) \<and>
           (pid_arg = Some pid \<and> pid \<noteq> [] \<longrightarrow> patient_id p = pid) \<and>
           db (patient_id p) = None \<and>
           name p = nm \<and> age p = ag \<and> height p = ht \<and> gender p = gd \<and>
           blood_group p = bg \<and> weight p = wt \<and> created_at p = Some now"
proof -
  from ident obtain q where q:
    "(pid_arg = Some q \<and> q \<noteq> [] \<and> db q = None) \<or>
     ((pid_arg = None \<or> pid_arg = Some []) \<and> generate_patient_id IoOk db rs = Some (Inr q))"
    and same: "pid_arg = Some pid \<and> pid \<noteq> [] \<longrightarrow> q = pid"
  proof (elim disjE)
    assume "pid_arg = Some pid \<and> pid \<noteq> [] \<and> db pid = None"
    then show ?thesis by (intro that [of pid]) auto
  next
    assume g: "(pid_arg = None \<or> pid_arg = Some []) \<and> r \<in> set rs \<and>
               db (CHR ''P'' # str_nat (randint 10000000 99999999 r)) = None"
    then obtain q where "generate_patient_id IoOk db rs = Some (Inr q)"
      using generate_patient_id_returns by blast
    with g show ?thesis by (intro that [of q]) auto
  qed
  from q have fresh: "db q = None"
    using generate_patient_id_sound by blast
  show ?thesis
    using now same fresh
    by (simp add: create_patient_fresh [OF now age q] get_patient_by_id_hit
                  current_timestamp_nonempty fromisoformat_current_timestamp)
qed

text \<open>
  Two instances, one with a supplied identifier and one with a generated identifier.
\<close>

theorem create_then_get_by_id_witness:
  "valid_datetime sample_now \<and> fits_sqlite_integer 35 \<and> fits_sqlite_integer 28 \<and>
   sample_db ''P99999999'' = None \<and>
   (\<exists>db' p. create_patient IoOk sample_now [] sample_db ''Bob Wilson'' 35 180 ''Male'' ''AB-'' 80
               (Some ''P99999999'') = Some (Inr (Some p), db') \<and>
      get_patient_by_id IoOk db' (patient_id p) = Inr (Some p) \<and>
      patient_id p = ''P99999999'' \<and> name p = ''Bob Wilson'' \<and> age p = 35 \<and> height p = 180 \<and>
      gender p = ''Male'' \<and> blood_group p = ''AB-'' \<and> weight p = 80 \<and>
      created_at p = Some sample_now) \<and>
   sample_db (CHR ''P'' # str_nat (randint 10000000 99999999 7)) = None \<and>
   (\<exists>db' p. create_patient IoOk sample_now [5, 7] sample_db ''Alice Johnson'' 28 170 ''Female'' ''B+'' 65
               None = Some (Inr (Some p), db') \<and>
      get_patient_by_id IoOk db' (patient_id p) = Inr (Some p) \<and>
      sample_db (patient_id p) = None \<and> name p = ''Alice Johnson'' \<and> age p = 28 \<and> height p = 170 \<and>
      gender p = ''Female'' \<and> blood_group p = ''B+'' \<and> weight p = 65 \<and>
      created_at p = Some sample_now)"
proof -
  have fresh: "sample_db ''P99999999'' = None" by (simp add: sample_db_def)
  have draw: "sample_db (CHR ''P'' # str_nat (randint 10000000 99999999 7)) = None"
    by (simp add: sample_db_def randint_def str_nat_eval)
  have ages: "fits_sqlite_integer 35" "fits_sqlite_integer 28"
    by (simp_all add: fits_sqlite_integer_def)
  show ?thesis
    using sample_now_valid ages fresh draw
      create_then_get_by_id [where now = sample_now and ag = 35 and pid_arg = "Some ''P99999999''"
          and pid = "''P99999999''" and db = sample_db and rs = "[]" and nm = "''Bob Wilson''"
          and ht = 180 and gd = "''Male''" and bg = "''AB-''" and wt = 80]
      create_then_get_by_id [where now = sample_now and ag = 28 and pid_arg = None
          and db = sample_db and rs = "[5, 7]" and r = 7 and nm = "''Alice Johnson''"
          and ht = 170 and gd = "''Female''" and bg = "''B+''" and wt = 65]
    by simp blast
qed




text \<open>
  Claim C5.  On a healthy store \<open>get_patient_by_id\<close> does not raise for a missing key:
  it returns \<open>None\<close>, and for a stored key it returns the record built from the row.
  On a miss \<open>lookup_patient\<close> returns the message \<open>Patient not found\<close> and leaves the
  whole function context (patient details, symptoms, completion flag) unchanged.
\<close>

theorem get_by_id_miss_and_lookup_miss:
  "(db pid = None \<longrightarrow>
      get_patient_by_id IoOk db pid = Inr None \<and>
      lookup_patient float_repr IoOk db pid s = (Inr ''Patient not found'', s)) \<and>
   (db pid = Some r \<longrightarrow>
      (\<exists>c. get_patient_by_id IoOk db pid =
         Inr (Some \<lparr> patient_id = pid, name = col_name r, age = col_age r, height = col_height r,
                     gender = col_gender r, blood_group = col_blood_group r, weight = col_weight r,
                     created_at = c \<rparr>)))"
  by (simp add: lookup_patient_def get_patient_by_id_miss get_patient_by_id_hit)

theorem get_by_id_miss_and_lookup_miss_witness:
  "sample_db ''P00000000'' = None \<and>
   get_patient_by_id IoOk sample_db ''P00000000'' = Inr None \<and>
   lookup_patient (\<lambda>x. []) IoOk sample_db ''P00000000'' sample_fnc = (Inr ''Patient not found'', sample_fnc) \<and>
   sample_db ''P10000005'' = Some sample_row \<and>
   (\<exists>c. get_patient_by_id IoOk sample_db ''P10000005'' =
      Inr (Some \<lparr> patient_id = ''P10000005'', name = ''John Doe'', age = 30, height = 175.5,
                  gender = ''Male'', blood_group = ''O+'', weight = 70, created_at = c \<rparr>))"
proof -
  have miss: "sample_db ''P00000000'' = None" and hit: "sample_db ''P10000005'' = Some sample_row"
    by (simp_all add: sample_db_def)
  show ?thesis
    using miss hit
      get_by_id_miss_and_lookup_miss [where db = sample_db and pid = "''P00000000''"
          and float_repr = "\<lambda>x. []" and s = sample_fnc]
      get_by_id_miss_and_lookup_miss [where db = sample_db and pid = "''P10000005''" and r = sample_row]
    by (simp add: sample_row_def)
qed


section \<open>The callable operations\<close>

subsection \<open>Symptoms\<close>

lemma symptoms_loop_lines:
  "symptoms_loop i xs acc =
     acc @ concat (map (\<lambda>(k, x). str_nat k @ ''. '' @ x @ [CHR 0x0A]) (zip [i ..< i + length xs] xs))"
proof (induction xs arbitrary: i acc)
  case Nil
  then show ?case by simp
next
  case (Cons x xs)
  have "[i ..< i + length (x # xs)] = i # [Suc i ..< Suc i + length xs]"
    using upt_conv_Cons [of i "i + Suc (length xs)"] by simp
  then show ?case by (simp add: Cons.IH)
qed

text \<open>
  Claim C3 says that \<open>get_symptoms\<close> renders the empty sequence as the sentence
  \<open>No symptoms were reported during this consultation.\<close>  It does not: that sentence
  belongs to the report; a fresh function context answers with another sentence.
\<close>

theorem get_symptoms_empty_counterexample:
  "get_symptoms init_fnc \<noteq> ''No symptoms were reported during this consultation.''"
  by (simp add: get_symptoms_def init_fnc_def)

text \<open>
  Claim C3, amended.  For every symptom sequence \<open>get_symptoms\<close> returns, for the empty
  sequence, the sentence \<open>No symptoms have been recorded yet.\<close>, and otherwise the line
  \<open>Recorded symptoms:\<close> followed by one line \<open>k. symptom\<close> per symptom, numbered
  from 1 in insertion order.
\<close>

theorem get_symptoms_rendering:
  "get_symptoms s =
     (if symptoms s = [] then ''No symptoms have been recorded yet.''
      else ''Recorded symptoms:'' @ [CHR 0x0A] @
           concat (map (\<lambda>(k, x). str_nat k @ ''. '' @ x @ [CHR 0x0A])
                       (zip [1 ..< Suc (length (symptoms s))] (symptoms s))))"
  by (simp add: get_symptoms_def symptoms_loop_lines)

theorem get_symptoms_rendering_witness:
  "get_symptoms sample_fnc =
     ''Recorded symptoms:'' @ [CHR 0x0A] @ ''1. Headache'' @ [CHR 0x0A] @ ''2. Fever'' @ [CHR 0x0A] \<and>
   get_symptoms init_fnc = ''No symptoms have been recorded yet.''"
  using get_symptoms_rendering [of sample_fnc] get_symptoms_rendering [of init_fnc]
  by (simp add: sample_fnc_def init_fnc_def upt_rec str_nat_eval numeral_2_eq_2 [symmetric])

subsection \<open>Ending the consultation\<close>

lemma sample_current_patient:
  "get_current_patient sample_fnc =
     Inr \<lparr> patient_id = ''P10000005'', name = ''John Doe'', age = 30, height = 175.5,
           gender = ''Male'', blood_group = ''O+'', weight = 70, created_at = None \<rparr>"
  by (simp add: get_current_patient_def has_patient_def sample_fnc_def py_int_def py_float_def)

text \<open>
  Claim C1.  Without an adopted patient \<open>end_consultation\<close> returns the no-patient
  message and leaves the function context as it was, so a completion flag that is false
  stays false.  With an adopted patient the context afterwards is the one before with the
  completion flag set, whatever the report generator does: when it returns a path the
  answer is the confirmation ending in that path, and when it raises (or when the patient
  record cannot be built) the answer is the completion message that embeds the text of
  the error.
\<close>

theorem end_consultation_completes:
  "(\<not> has_patient s \<longrightarrow>
      end_consultation gen s = (''Cannot end consultation: No patient information available.'', s)) \<and>
   (has_patient s \<longrightarrow> snd (end_consultation gen s) = s\<lparr> conversation_complete := True \<rparr>) \<and>
   (has_patient s \<and> get_current_patient s = Inr p \<and> gen p (symptoms s) = Inr path \<longrightarrow>
      fst (end_consultation gen s) =
        ''Consultation complete! Your diagnostic report has been generated and saved. Thank you for using our health assistant service. Report saved as: '' @ path) \<and>
   (has_patient s \<and> get_current_patient s = Inr p \<and> gen p (symptoms s) = Inl err \<longrightarrow>
      fst (end_consultation gen s) =
        ''Consultation marked as complete, but there was an issue generating your report: '' @ err @ ''. Please contact support if needed.'') \<and>
   (has_patient s \<and> get_current_patient s = Inl e \<longrightarrow>
      fst (end_consultation gen s) =
        ''Consultation marked as complete, but there was an issue generating your report: '' @ str_exn e @ ''. Please contact support if needed.'')"
  by (auto simp: end_consultation_def split: sum.splits)

theorem end_consultation_completes_witness:
  "\<not> has_patient init_fnc \<and>
   end_consultation (\<lambda>p xs. Inr ''reports/John_Doe_20240201_143045_report.txt'') init_fnc =
     (''Cannot end consultation: No patient information available.'', init_fnc) \<and>
   \<not> conversation_complete init_fnc \<and>
   has_patient sample_fnc \<and>
   end_consultation (\<lambda>p xs. Inr ''reports/John_Doe_20240201_143045_report.txt'') sample_fnc =
     (''Consultation complete! Your diagnostic report has been generated and saved. Thank you for using our health assistant service. Report saved as: reports/John_Doe_20240201_143045_report.txt'',
      sample_fnc\<lparr> conversation_complete := True \<rparr>) \<and>
   end_consultation (\<lambda>p xs. Inl ''File system error'') sample_fnc =
     (''Consultation marked as complete, but there was an issue generating your report: File system error. Please contact support if needed.'',
      sample_fnc\<lparr> conversation_complete := True \<rparr>)"
proof -
  have no: "\<not> has_patient init_fnc" "\<not> conversation_complete init_fnc"
    by (simp_all add: has_patient_def init_fnc_def)
  have yes: "has_patient sample_fnc" by (simp add: has_patient_def sample_fnc_def)
  note ok = end_consultation_completes [where s = sample_fnc and gen = "\<lambda>p xs. Inr ''reports/John_Doe_20240201_143045_report.txt''"
         and path = "''reports/John_Doe_20240201_143045_report.txt''"
         and p = "\<lparr> patient_id = ''P10000005'', name = ''John Doe'', age = 30, height = 175.5,
           gender = ''Male'', blood_group = ''O+'', weight = 70, created_at = None \<rparr>"]
  note bad = end_consultation_completes [where s = sample_fnc and gen = "\<lambda>p xs. Inl ''File system error''"
         and err = "''File system error''"
         and p = "\<lparr> patient_id = ''P10000005'', name = ''John Doe'', age = 30, height = 175.5,
           gender = ''Male'', blood_group = ''O+'', weight = 70, created_at = None \<rparr>"]
  note nopat = end_consultation_completes [where s = init_fnc and gen = "\<lambda>p xs. Inr ''reports/John_Doe_20240201_143045_report.txt''"]
  show ?thesis
    using no yes sample_current_patient ok bad nopat
    by (simp add: prod_eq_iff)
qed

subsection \<open>Adopting a patient\<close>

lemma get_current_patient_details_of:
  "patient_id r \<noteq> [] \<Longrightarrow>
   get_current_patient (s\<lparr> patient_details := details_of r \<rparr>) = Inr (r\<lparr> created_at := None \<rparr>)"
  by (simp add: get_current_patient_def has_patient_def details_of_def py_int_def py_float_def)

text \<open>
  Claim C10.  A successful \<open>lookup_patient\<close> or \<open>create_patient\<close> changes the
  function context only by replacing the patient details with the seven fields of the
  record found or created; the symptom sequence is exactly as before.  Ending the
  consultation afterwards hands the report generator the newly adopted patient together
  with the symptoms recorded earlier.
\<close>

theorem adoption_keeps_symptoms:
  "(get_patient_by_id io db pid = Inr (Some r) \<longrightarrow>
      snd (lookup_patient float_repr io db pid s) = s\<lparr> patient_details := details_of r \<rparr>) \<and>
   (create_patient io now rs db nm ag ht gd bg wt None = Some (Inr (Some r), db') \<longrightarrow>
      (\<exists>msg. fnc_create_patient io now rs db nm ag ht gd bg wt s =
         Some (Inr msg, s\<lparr> patient_details := details_of r \<rparr>, db'))) \<and>
   symptoms (s\<lparr> patient_details := details_of r \<rparr>) = symptoms s \<and>
   patient_details (s\<lparr> patient_details := details_of r \<rparr>) =
     \<lparr> PATIENT_ID = patient_id r, NAME = name r, AGE = Filled (age r), HEIGHT = Filled (height r),
       GENDER = gender r, BLOOD_GROUP = blood_group r, WEIGHT = Filled (weight r) \<rparr> \<and>
   (patient_id r \<noteq> [] \<and> gen (r\<lparr> created_at := None \<rparr>) (symptoms s) = Inr path \<longrightarrow>
      fst (end_consultation gen (s\<lparr> patient_details := details_of r \<rparr>)) =
        ''Consultation complete! Your diagnostic report has been generated and saved. Thank you for using our health assistant service. Report saved as: '' @ path)"
proof (intro conjI impI)
  assume "get_patient_by_id io db pid = Inr (Some r)"
  then show "snd (lookup_patient float_repr io db pid s) = s\<lparr> patient_details := details_of r \<rparr>"
    by (simp add: lookup_patient_def Let_def)
next
  assume "create_patient io now rs db nm ag ht gd bg wt None = Some (Inr (Some r), db')"
  then show "\<exists>msg. fnc_create_patient io now rs db nm ag ht gd bg wt s =
         Some (Inr msg, s\<lparr> patient_details := details_of r \<rparr>, db')"
    by (simp add: fnc_create_patient_def)
next
  show "symptoms (s\<lparr> patient_details := details_of r \<rparr>) = symptoms s" by simp
next
  show "patient_details (s\<lparr> patient_details := details_of r \<rparr>) =
     \<lparr> PATIENT_ID = patient_id r, NAME = name r, AGE = Filled (age r), HEIGHT = Filled (height r),
       GENDER = gender r, BLOOD_GROUP = blood_group r, WEIGHT = Filled (weight r) \<rparr>"
    by (simp add: details_of_def)
next
  assume a: "patient_id r \<noteq> [] \<and> gen (r\<lparr> created_at := None \<rparr>) (symptoms s) = Inr path"
  then have "has_patient (s\<lparr> patient_details := details_of r \<rparr>)"
    by (simp add: has_patient_def details_of_def)
  with a show "fst (end_consultation gen (s\<lparr> patient_details := details_of r \<rparr>)) =
        ''Consultation complete! Your diagnostic report has been generated and saved. Thank you for using our health assistant service. Report saved as: '' @ path"
    by (simp add: end_consultation_def get_current_patient_details_of)
qed

text \<open>
  An instance: symptoms recorded for John Doe are reported for Alice Johnson, created
  afterwards.
\<close>

theorem adoption_keeps_symptoms_witness:
  "get_patient_by_id IoOk sample_db ''P10000005'' =
     Inr (Some \<lparr> patient_id = ''P10000005'', name = ''John Doe'', age = 30, height = 175.5,
                 gender = ''Male'', blood_group = ''O+'', weight = 70,
                 created_at = Some \<lparr> year = 2024, month = 2, day = 1, hour = 14, minute = 30, second = 45 \<rparr> \<rparr>) \<and>
   symptoms (snd (lookup_patient (\<lambda>x. []) IoOk sample_db ''P10000005'' (init_fnc\<lparr> symptoms := [''Headache''] \<rparr>)))
     = [''Headache''] \<and>
   PATIENT_ID (patient_details (snd (lookup_patient (\<lambda>x. []) IoOk sample_db ''P10000005''
     (init_fnc\<lparr> symptoms := [''Headache''] \<rparr>)))) = ''P10000005'' \<and>
   (\<exists>msg db'. fnc_create_patient IoOk sample_now [5, 7] sample_db ''Alice Johnson'' 28 170 ''Female'' ''B+'' 65
        sample_fnc =
      Some (Inr msg,
            \<lparr> patient_details =
                \<lparr> PATIENT_ID = ''P10000007'', NAME = ''Alice Johnson'', AGE = Filled 28,
                  HEIGHT = Filled 170, GENDER = ''Female'', BLOOD_GROUP = ''B+'', WEIGHT = Filled 65 \<rparr>,
              symptoms = [''Headache'', ''Fever''], conversation_complete = False \<rparr>, db')) \<and>
   fst (end_consultation (\<lambda>p xs. Inr (name p @ '': '' @ join '', '' xs))
          \<lparr> patient_details =
                \<lparr> PATIENT_ID = ''P10000007'', NAME = ''Alice Johnson'', AGE = Filled 28,
                  HEIGHT = Filled 170, GENDER = ''Female'', BLOOD_GROUP = ''B+'', WEIGHT = Filled 65 \<rparr>,
              symptoms = [''Headache'', ''Fever''], conversation_complete = False \<rparr>) =
     ''Consultation complete! Your diagnostic report has been generated and saved. Thank you for using our health assistant service. Report saved as: Alice Johnson: Headache, Fever''"
proof -
  let ?john = "\<lparr> patient_id = ''P10000005'', name = ''John Doe'', age = 30, height = 175.5,
                 gender = ''Male'', blood_group = ''O+'', weight = 70,
                 created_at = Some \<lparr> year = 2024, month = 2, day = 1, hour = 14, minute = 30, second = 45 \<rparr> \<rparr>"
  let ?alice = "\<lparr> patient_id = ''P10000007'', name = ''Alice Johnson'', age = 28, height = 170,
                 gender = ''Female'', blood_group = ''B+'', weight = 65, created_at = Some sample_now \<rparr>"
  let ?db' = "sample_db(''P10000007'' \<mapsto>
                 \<lparr> col_name = ''Alice Johnson'', col_age = 28, col_height = 170, col_gender = ''Female'',
                   col_blood_group = ''B+'', col_weight = 65,
                   col_created_at = Some (current_timestamp sample_now) \<rparr>)"
  let ?gen = "\<lambda>p xs. Inr (name p @ '': '' @ join '', '' xs) :: string + string"
  have created:
    "create_patient IoOk sample_now [5, 7] sample_db ''Alice Johnson'' 28 170 ''Female'' ''B+'' 65 None =
       Some (Inr (Some ?alice), ?db')"
    using create_patient_fresh [where now = sample_now and ag = 28 and pid_arg = None
              and pid = "''P10000007''" and db = sample_db and rs = "[5, 7]"]
      sample_now_valid sample_generation by (simp add: fits_sqlite_integer_def)
  note look = adoption_keeps_symptoms
      [where io = IoOk and db = sample_db and pid = "''P10000005''" and r = ?john
         and float_repr = "\<lambda>x. []" and s = "init_fnc\<lparr> symptoms := [''Headache''] \<rparr>"]
  note make = adoption_keeps_symptoms
      [where io = IoOk and db = sample_db and now = sample_now and rs = "[5, 7]"
         and nm = "''Alice Johnson''" and ag = 28 and ht = 170 and gd = "''Female''" and bg = "''B+''"
         and wt = 65 and r = ?alice and db' = ?db' and s = sample_fnc and gen = ?gen
         and path = "''Alice Johnson: Headache, Fever''"]
  show ?thesis
    using sample_lookup created look make
    by (simp add: details_of_def sample_fnc_def init_fnc_def) blast
qed

subsection \<open>Faults of the store\<close>

text \<open>
  \<open>create_patient\<close> tests its result for \<open>None\<close> and answers
  \<open>Failed to create patient\<close> then.  The driver never returns \<open>None\<close>: it reports a
  failure by raising, so that answer is never given, and an exception of the store passes
  through \<open>create_patient\<close> and \<open>lookup_patient\<close>, neither of which has a handler.
\<close>

lemma fnc_create_patient_never_reports_failure:
  "fnc_create_patient io now rs db nm ag ht gd bg wt s \<noteq> Some (Inr ''Failed to create patient'', s', db')"
proof
  assume f: "fnc_create_patient io now rs db nm ag ht gd bg wt s = Some (Inr ''Failed to create patient'', s', db')"
  show False
  proof (cases "create_patient io now rs db nm ag ht gd bg wt None")
    case None
    with f show False by (simp add: fnc_create_patient_def)
  next
    case (Some res)
    obtain out tb where res: "res = (out, tb)" by (cases res)
    show False
    proof (cases out)
      case (Inl e)
      with f Some res show False by (simp add: fnc_create_patient_def)
    next
      case (Inr po)
      show False
      proof (cases po)
        case None
        with Some res Inr show False using create_patient_not_None by blast
      next
        case (Some p)
        with f \<open>create_patient io now rs db nm ag ht gd bg wt None = Some res\<close> res Inr
        show False by (simp add: fnc_create_patient_def)
      qed
    qed
  qed
qed

lemma fnc_create_patient_fault:
  "fnc_create_patient (IoFault m) now (r # rs) db nm ag ht gd bg wt s = Some (Inl (OperationalError m), s, db)"
  by (simp add: fnc_create_patient_def create_patient_def Let_def get_patient_by_id_fault)

lemma lookup_patient_fault:
  "lookup_patient float_repr (IoFault m) db pid s = (Inl (OperationalError m), s)"
  by (simp add: lookup_patient_def get_patient_by_id_fault)

text \<open>
  Claim C2 says that a failure of the store during \<open>createPatient\<close> results in a returned
  failure message and never in an uncaught fault, and the same for \<open>lookupPatient\<close>.
  The code at a failing store: both operations raise the \<open>OperationalError\<close> of the
  store instead of returning a message.
\<close>

theorem create_patient_store_fault_escapes:
  "fnc_create_patient (IoFault ''disk I/O error'') sample_now [5] sample_db
       ''Test Patient'' 30 170 ''Male'' ''O+'' 70 init_fnc =
     Some (Inl (OperationalError ''disk I/O error''), init_fnc, sample_db) \<and>
   lookup_patient (\<lambda>x. []) (IoFault ''disk I/O error'') sample_db ''P10000005'' init_fnc =
     (Inl (OperationalError ''disk I/O error''), init_fnc)"
  by (simp add: fnc_create_patient_def create_patient_def lookup_patient_def Let_def
                get_patient_by_id_def)


section \<open>The phase controller\<close>

text \<open>
  \<open>contains\<close> is the substring relation, and \<open>any_phrase_in\<close> holds when one of the
  phrases is a substring.
\<close>

lemma starts_with_iff: "starts_with p s \<longleftrightarrow> (\<exists>v. s = p @ v)"
  by (induction p s rule: starts_with.induct) auto

lemma contains_iff: "contains p s \<longleftrightarrow> (\<exists>u v. s = u @ p @ v)"
proof (induction s)
  case Nil
  then show ?case by auto
next
  case (Cons c cs)
  show ?case
  proof
    assume "contains p (c # cs)"
    then consider "starts_with p (c # cs)" | "contains p cs" by auto
    then show "\<exists>u v. c # cs = u @ p @ v"
    proof cases
      case 1
      then obtain v where "c # cs = p @ v" by (auto simp: starts_with_iff)
      then have "c # cs = [] @ p @ v" by simp
      then show ?thesis by blast
    next
      case 2
      with Cons.IH obtain u v where "cs = u @ p @ v" by blast
      then have "c # cs = (c # u) @ p @ v" by simp
      then show ?thesis by blast
    qed
  next
    assume "\<exists>u v. c # cs = u @ p @ v"
    then obtain u v where uv: "c # cs = u @ p @ v" by blast
    show "contains p (c # cs)"
    proof (cases u)
      case Nil
      with uv have "starts_with p (c # cs)" by (auto simp: starts_with_iff)
      then show ?thesis by simp
    next
      case (Cons a u')
      with uv have "cs = u' @ p @ v" by simp
      with Cons.IH have "contains p cs" by blast
      then show ?thesis by simp
    qed
  qed
qed

lemma any_phrase_in_iff:
  "any_phrase_in phrases t \<longleftrightarrow> (\<exists>phrase \<in> set phrases. \<exists>u v. t = u @ phrase @ v)"
  by (simp add: any_phrase_in_def list_ex_iff contains_iff)

text \<open>
  Claim C7.  Once the consultation is complete, the handler answers every utterance with
  the fixed acknowledgment and a request for a response, and returns the controller
  unchanged: the phase, the symptom sequence and the adopted patient are as before.  The
  handler has no access to the store or to the report generator.
\<close>

theorem completed_consultation_is_terminal:
  assumes "is_consultation_complete (assistant_fnc a)"
  shows "on_user_speech_committed content a =
           (a, [Item_create Assistant ''Your consultation has been completed and your report has been generated. Thank you!'',
                Response_create])"
  using assms by (simp add: on_user_speech_committed_def)

theorem completed_consultation_is_terminal_witness:
  "is_consultation_complete (sample_fnc\<lparr> conversation_complete := True \<rparr>) \<and>
   on_user_speech_committed ''I also have a cough''
       (sample_agent\<lparr> assistant_fnc := sample_fnc\<lparr> conversation_complete := True \<rparr> \<rparr>) =
     (sample_agent\<lparr> assistant_fnc := sample_fnc\<lparr> conversation_complete := True \<rparr> \<rparr>,
      [Item_create Assistant ''Your consultation has been completed and your report has been generated. Thank you!'',
       Response_create])"
  using completed_consultation_is_terminal
          [of "sample_agent\<lparr> assistant_fnc := sample_fnc\<lparr> conversation_complete := True \<rparr> \<rparr>"
              "''I also have a cough''"]
  by (simp add: is_consultation_complete_def)

text \<open>
  Claim C8.  With a patient adopted and the consultation not complete: in the symptoms
  phase, an utterance whose lower-cased text contains one of the completion phrases moves
  the phase to completion; in the completion phase, an utterance whose lower-cased text
  contains none of the affirmative phrases moves the phase back to symptoms.
\<close>

theorem phase_transitions_on_phrases:
  assumes "has_patient (assistant_fnc a)" and "\<not> is_consultation_complete (assistant_fnc a)"
  shows "(conversation_phase a = Symptoms \<and>
            (\<exists>phrase \<in> set completion_phrases. \<exists>u v. lower content = u @ phrase @ v) \<longrightarrow>
            conversation_phase (fst (on_user_speech_committed content a)) = Completion) \<and>
         (conversation_phase a = Completion \<and>
            \<not> (\<exists>phrase \<in> set affirmative_phrases. \<exists>u v. lower content = u @ phrase @ v) \<longrightarrow>
            conversation_phase (fst (on_user_speech_committed content a)) = Symptoms)"
  using assms
  by (simp add: on_user_speech_committed_def handle_query_def Let_def any_phrase_in_iff [symmetric])

theorem phase_transitions_on_phrases_witness:
  "has_patient sample_fnc \<and> \<not> is_consultation_complete sample_fnc \<and>
   lower ''I am DONE now'' = ''i am '' @ ''done'' @ '' now'' \<and>
   conversation_phase (fst (on_user_speech_committed ''I am DONE now'' sample_agent)) = Completion \<and>
   \<not> any_phrase_in affirmative_phrases (lower ''No, and my head hurts'') \<and>
   conversation_phase (fst (on_user_speech_committed ''No, and my head hurts''
       (sample_agent\<lparr> conversation_phase := Completion \<rparr>))) = Symptoms"
proof -
  have pat: "has_patient sample_fnc" "\<not> is_consultation_complete sample_fnc"
    by (simp_all add: has_patient_def is_consultation_complete_def sample_fnc_def)
  have low: "lower ''I am DONE now'' = ''i am '' @ ''done'' @ '' now''"
    by code_simp
  have "''done'' \<in> set completion_phrases" by (simp add: completion_phrases_def)
  with low have hit: "\<exists>phrase \<in> set completion_phrases. \<exists>u v. lower ''I am DONE now'' = u @ phrase @ v"
    by blast
  have no: "\<not> any_phrase_in affirmative_phrases (lower ''No, and my head hurts'')"
    by code_simp
  have miss: "\<not> (\<exists>phrase \<in> set affirmative_phrases. \<exists>u v. lower ''No, and my head hurts'' = u @ phrase @ v)"
    unfolding any_phrase_in_iff [symmetric] by (rule no)
  show ?thesis
    using pat low hit no miss
      phase_transitions_on_phrases [of sample_agent "''I am DONE now''"]
      phase_transitions_on_phrases [of "sample_agent\<lparr> conversation_phase := Completion \<rparr>" "''No, and my head hurts''"]
    by (simp add: sample_agent_def)
qed

end
